theory Spec2Isabelle
  imports Main
begin

section \<open>Strings as Python has them\<close>

text \<open>
  A Python \<open>str\<close> is modelled as a \<open>string\<close>, one \<open>char\<close> per code point, which covers
  the code points below 256. The helpers below are the \<open>str\<close> methods that
  \<open>favicon.py\<close> and the standard-library functions it calls rely on.
\<close>

definition startswith :: "string \<Rightarrow> string \<Rightarrow> bool" where
  \<comment> \<open>\<open>s.startswith(p)\<close>\<close>
  "startswith s p = (take (length p) s = p)"

definition endswith :: "string \<Rightarrow> string \<Rightarrow> bool" where
  \<comment> \<open>\<open>s.endswith(p)\<close>\<close>
  "endswith s p = (drop (length s - length p) s = p \<and> length p \<le> length s)"

fun split_on :: "char \<Rightarrow> string \<Rightarrow> string list" where
  \<comment> \<open>\<open>s.split(c)\<close> for a one-character separator: every occurrence splits, empty
     tokens are kept, and the result is never empty.\<close>
  "split_on c [] = [[]]"
| "split_on c (x # xs) =
     (if x = c then [] # split_on c xs
      else (case split_on c xs of
              [] \<Rightarrow> [[x]]
            | t # ts \<Rightarrow> (x # t) # ts))"

fun str_join :: "string \<Rightarrow> string list \<Rightarrow> string" where
  \<comment> \<open>\<open>sep.join(tokens)\<close>\<close>
  "str_join sep [] = []"
| "str_join sep [t] = t"
| "str_join sep (t # u # ts) = t @ sep @ str_join sep (u # ts)"

definition code_point :: "char \<Rightarrow> nat" where
  "code_point c = of_char c"

definition is_ascii_upper :: "char \<Rightarrow> bool" where
  "is_ascii_upper c = (65 \<le> code_point c \<and> code_point c \<le> 90)"

definition is_ascii_lower :: "char \<Rightarrow> bool" where
  "is_ascii_lower c = (97 \<le> code_point c \<and> code_point c \<le> 122)"

definition is_ascii_digit :: "char \<Rightarrow> bool" where
  "is_ascii_digit c = (48 \<le> code_point c \<and> code_point c \<le> 57)"

definition is_ascii_alpha :: "char \<Rightarrow> bool" where
  \<comment> \<open>\<open>c.isascii() and c.isalpha()\<close>\<close>
  "is_ascii_alpha c = (is_ascii_upper c \<or> is_ascii_lower c)"

definition lower_char :: "char \<Rightarrow> char" where
  "lower_char c = (if is_ascii_upper c then char_of (code_point c + 32) else c)"

definition is_space :: "char \<Rightarrow> bool" where
  \<comment> \<open>\<open>c.isspace()\<close> on the code points below 256: TAB to CR, FS to US, space, NEL
     and the no-break space.\<close>
  "is_space c =
     (let n = code_point c
      in (9 \<le> n \<and> n \<le> 13) \<or> (28 \<le> n \<and> n \<le> 32) \<or> n = 133 \<or> n = 160)"

definition str_strip :: "string \<Rightarrow> string" where
  \<comment> \<open>\<open>s.strip()\<close>\<close>
  "str_strip s = rev (dropWhile is_space (rev (dropWhile is_space s)))"

section \<open>\<open>os.path\<close> (POSIX flavour)\<close>

definition rstrip_sep :: "string \<Rightarrow> string" where
  \<comment> \<open>\<open>head.rstrip('/')\<close>\<close>
  "rstrip_sep p = rev (dropWhile (\<lambda>c. c = CHR ''/'') (rev p))"

definition last_segment :: "string \<Rightarrow> string" where
  \<comment> \<open>\<open>p[p.rfind('/') + 1:]\<close>\<close>
  "last_segment p = rev (takeWhile (\<lambda>c. c \<noteq> CHR ''/'') (rev p))"

definition upto_last_sep :: "string \<Rightarrow> string" where
  \<comment> \<open>\<open>p[:p.rfind('/') + 1]\<close>\<close>
  "upto_last_sep p = rev (dropWhile (\<lambda>c. c \<noteq> CHR ''/'') (rev p))"

definition os_path_split :: "string \<Rightarrow> string \<times> string" where
  \<comment> \<open>\<open>posixpath.split\<close>: the head loses its trailing slashes unless it consists of
     slashes only.\<close>
  "os_path_split p =
     (let head = upto_last_sep p; tail = last_segment p
      in (if head \<noteq> [] \<and> \<not> list_all (\<lambda>c. c = CHR ''/'') head
          then rstrip_sep head else head, tail))"

definition os_path_splitext :: "string \<Rightarrow> string \<times> string" where
  \<comment> \<open>\<open>posixpath.splitext\<close>: the extension starts at the last dot of the last segment,
     unless that segment has only dots before it.\<close>
  "os_path_splitext p =
     (let name = last_segment p;
          ext = rev (takeWhile (\<lambda>c. c \<noteq> CHR ''.'') (rev name));
          stem = rev (dropWhile (\<lambda>c. c \<noteq> CHR ''.'') (rev name))
      in if stem \<noteq> [] \<and> \<not> list_all (\<lambda>c. c = CHR ''.'') stem
         then (take (length p - length ext - 1) p, CHR ''.'' # ext)
         else (p, []))"

definition path_join2 :: "string \<Rightarrow> string \<Rightarrow> string" where
  \<comment> \<open>one round of the loop of \<open>posixpath.join\<close>\<close>
  "path_join2 path b =
     (if startswith b ''/'' then b
      else if path = [] \<or> endswith path ''/'' then path @ b
      else path @ ''/'' @ b)"

definition os_path_join :: "string \<Rightarrow> string list \<Rightarrow> string" where
  \<comment> \<open>\<open>os.path.join(a, *p)\<close>\<close>
  "os_path_join a p = foldl path_join2 a p"

section \<open>\<open>urllib.parse.urlparse\<close>\<close>

text \<open>
  The parser of CPython 3.11: leading control characters and spaces are stripped, tabs and
  newlines removed, the scheme is the text before the first colon when it starts with an
  ASCII letter and consists of scheme characters, the network location follows a leading
  \<open>//\<close> up to the first of \<open>/ ? #\<close>, then the fragment, the query and (for the
  schemes that have them) the parameters are cut off the path. A network location with
  unbalanced square brackets, or with a bracketed host that is not an IPv6 or IPvFuture
  literal, raises \<open>ValueError\<close>; the validity of a bracketed host is decided by the
  \<open>ipaddress\<close> module and enters the model as the parameter \<open>ipv6_ok\<close>.
\<close>

datatype exn =
    ConnectionError
  | HTTPError nat
  | RequestException string
  | ValueError
  | KeyError
  | NameError string
  | UnidentifiedImageError
  | OSError
  | GenericException string

record parse_result =
  scheme :: string
  netloc :: string
  path :: string
  params :: string
  query :: string
  fragment :: string

definition is_scheme_char :: "char \<Rightarrow> bool" where
  \<comment> \<open>membership in \<open>scheme_chars\<close>\<close>
  "is_scheme_char c =
     (is_ascii_alpha c \<or> is_ascii_digit c \<or> c = CHR ''+'' \<or> c = CHR ''-'' \<or> c = CHR ''.'')"

definition is_c0_or_space :: "char \<Rightarrow> bool" where
  "is_c0_or_space c = (code_point c \<le> 32)"

definition is_unsafe_byte :: "char \<Rightarrow> bool" where
  \<comment> \<open>tab, carriage return, newline\<close>
  "is_unsafe_byte c = (code_point c = 9 \<or> code_point c = 13 \<or> code_point c = 10)"

definition url_clean :: "string \<Rightarrow> string" where
  "url_clean url = filter (\<lambda>c. \<not> is_unsafe_byte c) (dropWhile is_c0_or_space url)"

definition split_scheme :: "string \<Rightarrow> string \<times> string" where
  \<comment> \<open>the scheme and the rest of the URL\<close>
  "split_scheme url =
     (let pre = takeWhile (\<lambda>c. c \<noteq> CHR '':'') url
      in if length pre < length url \<and> pre \<noteq> [] \<and> is_ascii_alpha (hd url)
            \<and> list_all is_scheme_char pre
         then (map lower_char pre, drop (length pre + 1) url)
         else ([], url))"

definition is_netloc_delim :: "char \<Rightarrow> bool" where
  "is_netloc_delim c = (c = CHR ''/'' \<or> c = CHR ''?'' \<or> c = CHR ''#'')"

definition split_netloc :: "string \<Rightarrow> string \<times> string" where
  \<comment> \<open>\<open>_splitnetloc(url, 2)\<close> when the URL starts with \<open>//\<close>\<close>
  "split_netloc url =
     (if take 2 url = ''//''
      then (takeWhile (\<lambda>c. \<not> is_netloc_delim c) (drop 2 url),
            dropWhile (\<lambda>c. \<not> is_netloc_delim c) (drop 2 url))
      else ([], url))"

definition bracketed_host :: "string \<Rightarrow> string" where
  \<comment> \<open>\<open>netloc.partition('[')[2].partition(']')[0]\<close>\<close>
  "bracketed_host nl =
     takeWhile (\<lambda>c. c \<noteq> CHR '']'') (drop 1 (dropWhile (\<lambda>c. c \<noteq> CHR ''['') nl))"

definition netloc_ok :: "(string \<Rightarrow> bool) \<Rightarrow> string \<Rightarrow> bool" where
  "netloc_ok ipv6_ok nl =
     (let l = CHR ''['' \<in> set nl; r = CHR '']'' \<in> set nl
      in if l \<and> r then ipv6_ok (bracketed_host nl) else \<not> l \<and> \<not> r)"

definition cut_at :: "char \<Rightarrow> string \<Rightarrow> string \<times> string" where
  \<comment> \<open>\<open>url.split(c, 1)\<close> when \<open>c\<close> occurs, the whole string and the empty string
     otherwise\<close>
  "cut_at c url =
     (takeWhile (\<lambda>x. x \<noteq> c) url, drop 1 (dropWhile (\<lambda>x. x \<noteq> c) url))"

definition uses_params :: "string list" where
  "uses_params = ['''', ''ftp'', ''hdl'', ''prospero'', ''http'', ''imap'', ''https'',
     ''shttp'', ''rtsp'', ''rtsps'', ''rtspu'', ''sip'', ''sips'', ''mms'', ''sftp'', ''tel'']"

definition split_params :: "string \<Rightarrow> string \<times> string" where
  \<comment> \<open>\<open>_splitparams\<close>, called on a path that contains a semicolon: the parameters
     start at the first semicolon of the last path segment, if it has one\<close>
  "split_params url =
     (let name = last_segment url
      in if CHR '';'' \<in> set name
         then (upto_last_sep url @ fst (cut_at CHR '';'' name), snd (cut_at CHR '';'' name))
         else (url, []))"

definition urlparse :: "(string \<Rightarrow> bool) \<Rightarrow> string \<Rightarrow> exn + parse_result" where
  "urlparse ipv6_ok url0 =
     (let url = url_clean url0;
          (sch, u1) = split_scheme url;
          (nl, u2) = split_netloc u1
      in if \<not> netloc_ok ipv6_ok nl then Inl ValueError
         else
           (let (u3, frag) = cut_at CHR ''#'' u2;
                (u4, q) = cut_at CHR ''?'' u3;
                (u5, par) = (if sch \<in> set uses_params \<and> CHR '';'' \<in> set u4
                             then split_params u4 else (u4, []))
            in Inr \<lparr>scheme = sch, netloc = nl, path = u5, params = par,
                     query = q, fragment = frag\<rparr>))"

section \<open>The outside world\<close>

text \<open>
  What \<open>requests\<close>, \<open>BeautifulSoup\<close>, \<open>PIL\<close>, the file system and the logging
  module do is not part of \<open>favicon.py\<close>. Their answers are parameters of the model (the
  record \<open>world\<close>), and every call the program makes to them is recorded, in order, in
  the trace of the state. The exceptions of \<open>exn\<close> are all subclasses of
  \<open>Exception\<close>.
\<close>

datatype resample = NEAREST | BILINEAR | BICUBIC | LANCZOS

datatype pil_image = PilImage (img_format: string) (img_width: int) (img_height: int)
    (img_sizes: "(int \<times> int) list")
  \<comment> \<open>what \<open>Image.open\<close> returns: format, width, height and, for an ICO file, the sizes
     of the frames it embeds (\<open>favicon.ico.sizes()\<close>)\<close>

datatype picture =
    Original pil_image
  | Frame pil_image "int \<times> int"
      \<comment> \<open>\<open>favicon.ico.getimage(size)\<close>\<close>
  | Resampled pil_image "int \<times> int" resample
      \<comment> \<open>\<open>favicon.resize(size, resample=...)\<close>\<close>

fun width :: "picture \<Rightarrow> int" where
  "width (Original i) = img_width i"
| "width (Frame i sz) = fst sz"
| "width (Resampled i sz r) = fst sz"

fun height :: "picture \<Rightarrow> int" where
  "height (Original i) = img_height i"
| "height (Frame i sz) = snd sz"
| "height (Resampled i sz r) = snd sz"

record response =
  status_code :: nat
  location :: "string option"
    \<comment> \<open>the \<open>Location\<close> header, if the response has one\<close>
  resp_url :: string
    \<comment> \<open>\<open>response.url\<close>\<close>
  icon_link :: "string option option"
    \<comment> \<open>\<open>soup.find('link', rel='icon')\<close> on the body: \<open>None\<close> when there is no such
       element, \<open>Some None\<close> when it has no \<open>href\<close>, \<open>Some (Some h)\<close> otherwise\<close>
  decoded :: "pil_image option"
    \<comment> \<open>\<open>Image.open\<close> on the body; \<open>None\<close> when the bytes are not an image\<close>

definition is_redirect :: "response \<Rightarrow> bool" where
  \<comment> \<open>\<open>Response.is_redirect\<close> of \<open>requests\<close>\<close>
  "is_redirect r =
     (location r \<noteq> None \<and> status_code r \<in> set [301, 302, 303, 307, 308])"

definition raise_for_status :: "response \<Rightarrow> exn option" where
  \<comment> \<open>\<open>Response.raise_for_status\<close> of \<open>requests\<close>: an \<open>HTTPError\<close> for a client
     error (4xx) or a server error (5xx), nothing otherwise\<close>
  "raise_for_status r =
     (if 400 \<le> status_code r \<and> status_code r < 600
      then Some (HTTPError (status_code r)) else None)"

datatype level = DEBUG | INFO | ERROR

datatype log_arg = Str string | StrList "string list"

datatype message =
    Trying string
      \<comment> \<open>trying to get favicon from '%s'\<close>
  | DecodedAs string int int string
      \<comment> \<open>format, width, height at '%s'\<close>
  | ResizedTo int int
  | SavedAs string
  | CannotConnect log_arg
      \<comment> \<open>cannot connect to '%s'\<close>
  | RequestsFailed exn
      \<comment> \<open>requests: %s\<close>
  | Raised exn
      \<comment> \<open>the exception itself as the message\<close>
  | IconExists string
      \<comment> \<open>%s: icon exists - skip\<close>
  | CannotFind string string
      \<comment> \<open>%s: cannot find favicon for URL '%s'\<close>
  | IconSaved string string
      \<comment> \<open>%s: icon saved as '%s'\<close>

datatype event =
    HttpGet string
  | HttpHead string
  | Log level message
  | Print string
  | ImageOpen
  | IcoGetimage "int \<times> int"
  | ImageResize "int \<times> int" resample
  | ImageSave string

record world =
  ipv6_ok :: "string \<Rightarrow> bool"
  http_get :: "event list \<Rightarrow> string \<Rightarrow> exn + response"
    \<comment> \<open>\<open>requests.get(url, headers=HEADERS)\<close>, given what happened so far\<close>
  http_head :: "event list \<Rightarrow> string \<Rightarrow> exn + response"
    \<comment> \<open>\<open>requests.head(url, headers=HEADERS)\<close>\<close>
  save_error :: "event list \<Rightarrow> picture \<Rightarrow> string \<Rightarrow> exn option"
    \<comment> \<open>the exception \<open>favicon.save(filename)\<close> raises, if any\<close>
  args_url :: "string list option"
    \<comment> \<open>\<open>args.url\<close> of the module global \<open>args\<close>, which exists only when the file
       runs as a script (it is assigned under \<open>if __name__ == '__main__'\<close>)\<close>
  abspath :: "string \<Rightarrow> string"
    \<comment> \<open>\<open>os.path.abspath\<close>, which depends on the working directory\<close>
  makedirs_error :: "string \<Rightarrow> exn option"
    \<comment> \<open>the exception \<open>os.makedirs(dir, mode=0o770, exist_ok=True)\<close> raises, if any\<close>
  open_lines :: "string \<Rightarrow> exn + string list \<times> exn option"
    \<comment> \<open>opening a text file (which may raise) and iterating over it: the lines the
       iteration yields, and the exception that ends it before the end of the file, if any
       (a read or decoding error)\<close>

record state =
  trace :: "event list"
  files :: "string \<rightharpoonup> picture"
    \<comment> \<open>the regular files that exist, with what was saved in them\<close>

definition emit :: "event \<Rightarrow> state \<Rightarrow> state" where
  "emit e s = s\<lparr>trace := trace s @ [e]\<rparr>"

section \<open>\<open>get_favicon_url\<close>\<close>

definition declared_reference :: "response \<Rightarrow> string" where
  \<comment> \<open>lines 24 and 28 to 33: the \<open>href\<close> of the \<open>link rel=icon\<close> element of a page that
     came with status 200, the empty string otherwise\<close>
  "declared_reference response =
     (if status_code response = 200
      then (case icon_link response of
              Some (Some href) \<Rightarrow> href
            | _ \<Rightarrow> [])
      else [])"

fun probe_defaults :: "world \<Rightarrow> string \<Rightarrow> string list \<Rightarrow> state \<Rightarrow> (exn + string) \<times> state" where
  \<comment> \<open>lines 38 to 45: the loop over the extensions\<close>
  "probe_defaults w basename [] s = (Inr [], s)"
| "probe_defaults w basename (ext # exts) s =
     (case http_head w (trace s) (basename @ ext) of
        Inl e \<Rightarrow> (Inl e, emit (HttpHead (basename @ ext)) s)
      | Inr response \<Rightarrow>
          if is_redirect response then
            (case location response of
               None \<Rightarrow> (Inl KeyError, emit (HttpHead (basename @ ext)) s)
             | Some l \<Rightarrow> (Inr l, emit (HttpHead (basename @ ext)) s))
          else if status_code response = 200 then
            (Inr (resp_url response), emit (HttpHead (basename @ ext)) s)
          else probe_defaults w basename exts (emit (HttpHead (basename @ ext)) s))"

definition find_reference :: "world \<Rightarrow> string \<Rightarrow> parse_result \<Rightarrow> state \<Rightarrow> (exn + string) \<times> state" where
  \<comment> \<open>lines 27 to 45: the reference declared by the page or, failing that, found at a
     default location; empty when there is none\<close>
  "find_reference w url parsed_url s =
     (case http_get w (trace s) url of
        Inl e \<Rightarrow> (Inl e, emit (HttpGet url) s)
      | Inr response \<Rightarrow>
          if declared_reference response = []
          then probe_defaults w (scheme parsed_url @ ''://'' @ netloc parsed_url @ ''/favicon.'')
                 [''png'', ''ico''] (emit (HttpGet url) s)
          else (Inr (declared_reference response), emit (HttpGet url) s))"

definition resolve :: "parse_result \<Rightarrow> string \<Rightarrow> string" where
  \<comment> \<open>lines 47 to 54\<close>
  "resolve parsed_url favicon_url =
     (if favicon_url \<noteq> [] then
        if startswith favicon_url ''//'' then scheme parsed_url @ '':'' @ favicon_url
        else if startswith favicon_url ''/''
          then scheme parsed_url @ ''://'' @ netloc parsed_url @ favicon_url
        else if \<not> startswith favicon_url ''http''
          then scheme parsed_url @ ''://'' @ netloc parsed_url @ ''/''
                 @ fst (os_path_split (path parsed_url)) @ ''/'' @ favicon_url
        else favicon_url
      else favicon_url)"

definition get_favicon_url :: "world \<Rightarrow> string \<Rightarrow> state \<Rightarrow> (exn + string) \<times> state" where
  "get_favicon_url w url s =
     (case urlparse (ipv6_ok w) url of
        Inl e \<Rightarrow> (Inl e, s)
      | Inr parsed_url \<Rightarrow>
          (case find_reference w url parsed_url s of
             (Inl e, s') \<Rightarrow> (Inl e, s')
           | (Inr favicon_url, s') \<Rightarrow> (Inr (resolve parsed_url favicon_url), s')))"

section \<open>\<open>get_filename\<close>\<close>

definition EXCLUDED_DOMAINS :: "string list" where
  "EXCLUDED_DOMAINS = [''www'', ''com'', ''org'', ''net'', ''ru'']"

definition get_filename :: "(string \<Rightarrow> bool) \<Rightarrow> string \<Rightarrow> string \<Rightarrow> bool \<Rightarrow> exn + string" where
  "get_filename ipv6 url favicon_url png =
     (case (if png then Inr ''.png''
            else (case urlparse ipv6 favicon_url of
                    Inl e \<Rightarrow> Inl e
                  | Inr f \<Rightarrow> Inr (snd (os_path_splitext (path f))))) of
        Inl e \<Rightarrow> Inl e
      | Inr ext \<Rightarrow>
          (case urlparse ipv6 url of
             Inl e \<Rightarrow> Inl e
           | Inr u \<Rightarrow>
               Inr (str_join ''-''
                      (filter (\<lambda>d. d \<notin> set EXCLUDED_DOMAINS) (split_on CHR ''.'' (netloc u)))
                    @ ext)))"

section \<open>\<open>get_favicon\<close>\<close>

definition resize_picture :: "pil_image \<Rightarrow> int \<Rightarrow> state \<Rightarrow> picture \<times> state" where
  \<comment> \<open>lines 72 to 78\<close>
  "resize_picture favicon resize s =
     (if resize > 0 then
        (let size = (resize, resize);
             (favicon', s') =
               (if img_format favicon = ''ICO'' \<and> size \<in> set (img_sizes favicon)
                then (Frame favicon size, emit (IcoGetimage size) s)
                else (Resampled favicon size BICUBIC, emit (ImageResize size BICUBIC) s))
         in (favicon', emit (Log DEBUG (ResizedTo (width favicon') (height favicon'))) s'))
      else (Original favicon, s))"

definition save_picture :: "world \<Rightarrow> picture \<Rightarrow> string \<Rightarrow> state \<Rightarrow> (exn + unit) \<times> state" where
  \<comment> \<open>lines 80 and 81; a failed save is taken to leave the files as they were\<close>
  "save_picture w favicon filename s =
     (case save_error w (trace s) favicon filename of
        Some e \<Rightarrow> (Inl e, emit (ImageSave filename) s)
      | None \<Rightarrow>
          (Inr (), emit (Log DEBUG (SavedAs filename))
                     ((emit (ImageSave filename) s)\<lparr>files := (files s)(filename \<mapsto> favicon)\<rparr>)))"

definition get_favicon :: "world \<Rightarrow> string \<Rightarrow> string \<Rightarrow> int \<Rightarrow> state \<Rightarrow> (exn + unit) \<times> state" where
  "get_favicon w url filename resize s =
     (let s1 = emit (Log DEBUG (Trying url)) s;
          s2 = emit (HttpGet url) s1
      in case http_get w (trace s1) url of
           Inl e \<Rightarrow> (Inl e, s2)
         | Inr response \<Rightarrow>
             (case (if status_code response \<noteq> 200 then raise_for_status response else None) of
                Some e \<Rightarrow> (Inl e, s2)
              | None \<Rightarrow>
                  (case decoded response of
                     None \<Rightarrow> (Inl UnidentifiedImageError, emit ImageOpen s2)
                   | Some favicon \<Rightarrow>
                       (let s3 = emit (Log DEBUG (DecodedAs (img_format favicon) (img_width favicon)
                                        (img_height favicon) (resp_url response)))
                                   (emit ImageOpen s2);
                            (favicon', s4) = resize_picture favicon resize s3
                        in save_picture w favicon' filename s4))))"

section \<open>\<open>get_favicons\<close>\<close>

definition normalize_url :: "string \<Rightarrow> string" where
  \<comment> \<open>lines 87 and 88\<close>
  "normalize_url url = (if \<not> startswith url ''http'' then ''https://'' @ url else url)"

definition cannot_find :: "string \<Rightarrow> exn" where
  \<comment> \<open>the exception of line 92\<close>
  "cannot_find url =
     GenericException (''cannot find favicon for URL '' @ [CHR 0x27] @ url @ [CHR 0x27])"

definition get_favicons_try ::
  "world \<Rightarrow> string \<Rightarrow> string \<Rightarrow> bool \<Rightarrow> int \<Rightarrow> bool \<Rightarrow> state \<Rightarrow> (exn + unit) \<times> string \<times> state" where
  \<comment> \<open>lines 90 to 100, on the normalized URL: the outcome of the \<open>try\<close> block, the value
     of \<open>output_dir\<close> after it, and the state\<close>
  "get_favicons_try w url output_dir png resize get s =
     (case get_favicon_url w url s of
        (Inl e, s1) \<Rightarrow> (Inl e, output_dir, s1)
      | (Inr favicon_url, s1) \<Rightarrow>
          if favicon_url = [] then (Inl (cannot_find url), output_dir, s1)
          else if get then
            (let output_dir' = (if output_dir = [] then ''.'' else output_dir)
             in case get_filename (ipv6_ok w) url favicon_url png of
                  Inl e \<Rightarrow> (Inl e, output_dir', s1)
                | Inr name \<Rightarrow>
                    (case get_favicon w favicon_url (os_path_join output_dir' [name]) resize s1 of
                       (r, s2) \<Rightarrow> (r, output_dir', s2)))
          else (Inr (), output_dir, emit (Print favicon_url) s1))"

fun except_other :: "exn \<Rightarrow> message" where
  \<comment> \<open>the \<open>except\<close> clauses for \<open>requests.RequestException\<close> (of which
     \<open>HTTPError\<close> is one) and for \<open>Exception\<close>, in their order\<close>
  "except_other (HTTPError n) = RequestsFailed (HTTPError n)"
| "except_other (RequestException m) = RequestsFailed (RequestException m)"
| "except_other e = Raised e"

fun get_favicons ::
  "world \<Rightarrow> string list \<Rightarrow> string \<Rightarrow> bool \<Rightarrow> int \<Rightarrow> bool \<Rightarrow> state \<Rightarrow> state" where
  \<comment> \<open>the loop with its three \<open>except\<close> clauses; \<open>requests.ConnectionError\<close> comes
     first\<close>
  "get_favicons w [] output_dir png resize get s = s"
| "get_favicons w (url # urls) output_dir png resize get s =
     (case get_favicons_try w (normalize_url url) output_dir png resize get s of
        (Inr u, output_dir', s') \<Rightarrow> get_favicons w urls output_dir' png resize get s'
      | (Inl e, output_dir', s') \<Rightarrow>
          get_favicons w urls output_dir' png resize get
            (emit (Log ERROR (if e = ConnectionError
                              then CannotConnect (Str (normalize_url url))
                              else except_other e)) s'))"

section \<open>\<open>get_dokuwiki_interwiki_icons\<close>\<close>

definition is_name_char :: "char \<Rightarrow> bool" where
  \<comment> \<open>the class \<open>[-0-9.a-z_]\<close>\<close>
  "is_name_char c =
     (c = CHR ''-'' \<or> is_ascii_digit c \<or> c = CHR ''.'' \<or> is_ascii_lower c \<or> c = CHR ''_'')"

definition is_re_space :: "char \<Rightarrow> bool" where
  \<comment> \<open>\<open>\s\<close> under \<open>re.ASCII\<close>: space, tab, newline, vertical tab, form feed, carriage
     return\<close>
  "is_re_space c = (code_point c = 32 \<or> (9 \<le> code_point c \<and> code_point c \<le> 13))"

definition interwiki_fullmatch :: "string \<Rightarrow> (string \<times> string) option" where
  \<comment> \<open>\<open>re.fullmatch(r'([-0-9.a-z_]+)\s+(.*)', s, flags=re.ASCII)\<close>, giving groups 1
     and 2. The two classes are disjoint, so group 1 is the longest run of name characters
     at the start; then comes the longest run of white space; the dot matches anything but
     a newline, so what is left must not contain one.\<close>
  "interwiki_fullmatch s =
     (let name = takeWhile is_name_char s;
          rest = dropWhile is_re_space (dropWhile is_name_char s)
      in if name \<noteq> [] \<and> takeWhile is_re_space (dropWhile is_name_char s) \<noteq> []
            \<and> CHR 0x0A \<notin> set rest
         then Some (name, rest) else None)"

definition isfile :: "state \<Rightarrow> string \<Rightarrow> bool" where
  \<comment> \<open>\<open>os.path.isfile\<close>\<close>
  "isfile s filename = (files s filename \<noteq> None)"

datatype entry_outcome = Skipped | Saved string string

definition interwiki_try ::
  "world \<Rightarrow> string \<Rightarrow> bool \<Rightarrow> string \<Rightarrow> state \<Rightarrow> (exn + entry_outcome) \<times> state" where
  \<comment> \<open>lines 117 to 130, the \<open>try\<close> block for one line: \<open>Skipped\<close> for each
     \<open>continue\<close>, \<open>Saved name filename\<close> when the block runs to its end\<close>
  "interwiki_try w images_dir force line s =
     (case interwiki_fullmatch (str_strip line) of
        None \<Rightarrow> (Inr Skipped, s)
      | Some (name, target) \<Rightarrow>
          (let filename = os_path_join images_dir [name @ ''.png'']
           in if isfile s filename \<and> \<not> force
              then (Inr Skipped, emit (Log INFO (IconExists name)) s)
              else
                (case urlparse (ipv6_ok w) target of
                   Inl e \<Rightarrow> (Inl e, s)
                 | Inr t \<Rightarrow>
                     (let url = scheme t @ ''://'' @ netloc t @ ''/''
                      in case get_favicon_url w url s of
                           (Inl e, s1) \<Rightarrow> (Inl e, s1)
                         | (Inr favicon_url, s1) \<Rightarrow>
                             if favicon_url = []
                             then (Inr Skipped, emit (Log ERROR (CannotFind name url)) s1)
                             else
                               (case get_favicon w favicon_url filename 16 s1 of
                                  (Inl e, s2) \<Rightarrow> (Inl e, s2)
                                | (Inr u, s2) \<Rightarrow> (Inr (Saved name filename), s2))))))"

fun scan_lines ::
  "world \<Rightarrow> string \<Rightarrow> bool \<Rightarrow> string list \<Rightarrow> state \<Rightarrow> (exn + unit) \<times> state" where
  \<comment> \<open>lines 115 to 140, the loop over the lines. The handler of
     \<open>requests.ConnectionError\<close> reads \<open>args.url\<close>: where the global \<open>args\<close> does not
     exist, evaluating it raises \<open>NameError\<close> inside the handler, which no clause
     catches.\<close>
  "scan_lines w images_dir force [] s = (Inr (), s)"
| "scan_lines w images_dir force (line # lines) s =
     (case interwiki_try w images_dir force line s of
        (Inr Skipped, s') \<Rightarrow> scan_lines w images_dir force lines s'
      | (Inr (Saved name filename), s') \<Rightarrow>
          scan_lines w images_dir force lines (emit (Log INFO (IconSaved name filename)) s')
      | (Inl e, s') \<Rightarrow>
          if e = ConnectionError then
            (case args_url w of
               None \<Rightarrow> (Inl (NameError ''args''), s')
             | Some urls \<Rightarrow>
                 scan_lines w images_dir force lines
                   (emit (Log ERROR (CannotConnect (StrList urls))) s'))
          else scan_lines w images_dir force lines
                 (emit (Log ERROR (except_other e)) s'))"

definition get_dokuwiki_interwiki_icons ::
  "world \<Rightarrow> string \<Rightarrow> bool \<Rightarrow> state \<Rightarrow> (exn + unit) \<times> state" where
  \<comment> \<open>The file is read line by line while the loop runs, outside the \<open>try\<close>: an
     error of the iteration comes after the lines before it have been processed, and it
     leaves the function.\<close>
  "get_dokuwiki_interwiki_icons w dokuwiki_home force s =
     (let home = abspath w dokuwiki_home;
          images_dir = os_path_join home [''lib'', ''images'', ''interwiki'']
      in case makedirs_error w images_dir of
           Some e \<Rightarrow> (Inl e, s)
         | None \<Rightarrow>
             (case open_lines w (os_path_join home [''conf'', ''interwiki.local.conf'']) of
                Inl e \<Rightarrow> (Inl e, s)
              | Inr (lines, read_error) \<Rightarrow>
                  (case scan_lines w images_dir force lines s of
                     (Inl e, s') \<Rightarrow> (Inl e, s')
                   | (Inr u, s') \<Rightarrow>
                       (case read_error of
                          None \<Rightarrow> (Inr (), s')
                        | Some e \<Rightarrow> (Inl e, s')))))"

section \<open>Vocabulary of the claims\<close>

fun is_request :: "event \<Rightarrow> bool" where
  "is_request (HttpGet u) = True"
| "is_request (HttpHead u) = True"
| "is_request e = False"

fun is_print :: "event \<Rightarrow> bool" where
  "is_print (Print u) = True"
| "is_print e = False"

fun is_error_log :: "event \<Rightarrow> bool" where
  "is_error_log (Log ERROR m) = True"
| "is_error_log e = False"

definition is_absolute_url :: "(string \<Rightarrow> bool) \<Rightarrow> string \<Rightarrow> bool" where
  \<comment> \<open>a fully qualified absolute URL: it parses, with a scheme and a network location\<close>
  "is_absolute_url ipv6 u =
     (case urlparse ipv6 u of
        Inl e \<Rightarrow> False
      | Inr p \<Rightarrow> scheme p \<noteq> [] \<and> netloc p \<noteq> [])"


definition initial :: state where
  \<comment> \<open>nothing has happened yet and no file exists\<close>
  "initial = \<lparr>trace = [], files = Map.empty\<rparr>"

definition serving :: "response \<Rightarrow> string list \<Rightarrow> world" where
  \<comment> \<open>a world in which every request is answered by the same response and every save
     succeeds; the module has been imported, and the configuration file has the given
     lines\<close>
  "serving r lines =
     \<lparr>ipv6_ok = (\<lambda>h. False),
      http_get = (\<lambda>tr u. Inr r),
      http_head = (\<lambda>tr u. Inr r),
      save_error = (\<lambda>tr p f. None),
      args_url = None,
      abspath = (\<lambda>p. p),
      makedirs_error = (\<lambda>d. None),
      open_lines = (\<lambda>f. Inr (lines, None))\<rparr>"

definition icon_moved :: "string \<Rightarrow> world" where
  \<comment> \<open>a site whose pages declare a \<open>link rel=icon\<close> with an empty \<open>href\<close>, that
     has no \<open>favicon.png\<close> (404), and that answers the HEAD of anything else with a
     redirect (301) to the given location\<close>
  "icon_moved target =
     \<lparr>ipv6_ok = (\<lambda>h. False),
      http_get = (\<lambda>tr u. Inr \<lparr>status_code = 200, location = None, resp_url = u,
                               icon_link = Some (Some []), decoded = None\<rparr>),
      http_head = (\<lambda>tr u.
         if endswith u ''/favicon.png''
         then Inr \<lparr>status_code = 404, location = None, resp_url = u,
                   icon_link = None, decoded = None\<rparr>
         else Inr \<lparr>status_code = 301, location = Some target, resp_url = u,
                   icon_link = None, decoded = None\<rparr>),
      save_error = (\<lambda>tr p f. None),
      args_url = None,
      abspath = (\<lambda>p. p),
      makedirs_error = (\<lambda>d. None),
      open_lines = (\<lambda>f. Inr ([], None))\<rparr>"

definition offline :: "string list \<Rightarrow> world" where
  \<comment> \<open>a world in which no host can be reached; the module has been imported, and the
     configuration file has the given lines\<close>
  "offline lines =
     \<lparr>ipv6_ok = (\<lambda>h. False),
      http_get = (\<lambda>tr u. Inl ConnectionError),
      http_head = (\<lambda>tr u. Inl ConnectionError),
      save_error = (\<lambda>tr p f. None),
      args_url = None,
      abspath = (\<lambda>p. p),
      makedirs_error = (\<lambda>d. None),
      open_lines = (\<lambda>f. Inr (lines, None))\<rparr>"

section \<open>Unfolding the library functions\<close>

lemmas char_defs = code_point_def is_ascii_alpha_def is_ascii_upper_def is_ascii_lower_def
  is_ascii_digit_def is_scheme_char_def lower_char_def is_c0_or_space_def is_unsafe_byte_def
  is_netloc_delim_def is_space_def is_name_char_def is_re_space_def

lemmas url_defs = urlparse_def url_clean_def split_scheme_def split_netloc_def netloc_ok_def
  cut_at_def uses_params_def split_params_def bracketed_host_def last_segment_def upto_last_sep_def

lemmas run_defs = get_favicons_try_def get_favicon_url_def find_reference_def
  declared_reference_def resolve_def get_favicon_def resize_picture_def save_picture_def
  normalize_url_def startswith_def endswith_def emit_def initial_def serving_def offline_def
  is_redirect_def raise_for_status_def cannot_find_def

section \<open>The derived file name\<close>





section \<open>What the functions do to the world\<close>

lemma probe_defaults_events:
  "probe_defaults w b exts s = (r, s') \<Longrightarrow>
   files s' = files s \<and> (\<exists>evs. trace s' = trace s @ evs \<and> list_all is_request evs)"
proof (induction exts arbitrary: s)
  case Nil
  then show ?case by simp
next
  case (Cons ext exts)
  show ?case
  proof (cases "http_head w (trace s) (b @ ext)")
    case (Inl e)
    with Cons.prems show ?thesis by (auto simp: emit_def)
  next
    case (Inr resp)
    show ?thesis
    proof (cases "is_redirect resp \<or> status_code resp = 200")
      case True
      with Cons.prems Inr show ?thesis
        by (auto simp: emit_def split: option.splits if_splits)
    next
      case False
      with Cons.prems Inr
      have "probe_defaults w b exts (emit (HttpHead (b @ ext)) s) = (r, s')" by simp
      from Cons.IH [OF this] show ?thesis by (auto simp: emit_def)
    qed
  qed
qed

lemma find_reference_events:
  "find_reference w url p s = (r, s') \<Longrightarrow>
   files s' = files s \<and>
   (\<exists>evs. trace s' = trace s @ HttpGet url # evs \<and> list_all is_request evs)"
proof (cases "http_get w (trace s) url")
  case (Inl e)
  assume "find_reference w url p s = (r, s')"
  with Inl show ?thesis by (auto simp: find_reference_def emit_def)
next
  case (Inr resp)
  assume a: "find_reference w url p s = (r, s')"
  show ?thesis
  proof (cases "declared_reference resp = []")
    case True
    with a Inr have "probe_defaults w (scheme p @ ''://'' @ netloc p @ ''/favicon.'')
        [''png'', ''ico''] (emit (HttpGet url) s) = (r, s')"
      by (simp add: find_reference_def)
    from probe_defaults_events [OF this] show ?thesis by (auto simp: emit_def)
  next
    case False
    with a Inr show ?thesis by (auto simp: find_reference_def emit_def)
  qed
qed

lemma get_favicon_url_events:
  "get_favicon_url w url s = (r, s') \<Longrightarrow>
   files s' = files s \<and> (\<exists>evs. trace s' = trace s @ evs \<and> list_all is_request evs)"
proof (cases "urlparse (ipv6_ok w) url")
  case (Inl e)
  assume "get_favicon_url w url s = (r, s')"
  with Inl show ?thesis by (simp add: get_favicon_url_def)
next
  case (Inr p)
  assume a: "get_favicon_url w url s = (r, s')"
  obtain r0 s0 where f: "find_reference w url p s = (r0, s0)" by (cases "find_reference w url p s")
  with a Inr have "s' = s0" by (auto simp: get_favicon_url_def split: sum.splits)
  with find_reference_events [OF f] show ?thesis by auto
qed


lemma resize_picture_trace:
  "resize_picture f rs s = (pic, s') \<Longrightarrow> \<exists>evs. trace s' = trace s @ evs"
  by (auto simp: resize_picture_def emit_def Let_def split: if_splits)

lemma save_picture_trace:
  "save_picture w pic f s = (r, s') \<Longrightarrow> \<exists>evs. trace s' = trace s @ evs"
  by (auto simp: save_picture_def emit_def split: option.splits)


section \<open>Fetching the image\<close>

text \<open>
  Claim C2, as stated, says that every status outside 200 to 299 makes \<open>get_favicon\<close> raise
  an HTTP error before the body is decoded. The code calls \<open>raise_for_status\<close>, which
  raises for 4xx and 5xx only: a response with status 300 (multiple choices, no
  \<open>Location\<close>) that carries an image is decoded and saved.
\<close>

theorem get_favicon_status_counterexample:
  "\<not> (200 \<le> status_code \<lparr>status_code = 300, location = None, resp_url = ''http://example.com/favicon.ico'',
        icon_link = None, decoded = Some (PilImage ''ICO'' 32 32 [(32, 32)])\<rparr>
      \<and> status_code \<lparr>status_code = 300, location = None, resp_url = ''http://example.com/favicon.ico'',
        icon_link = None, decoded = Some (PilImage ''ICO'' 32 32 [(32, 32)])\<rparr> < 300)
   \<and> fst (get_favicon
        (serving \<lparr>status_code = 300, location = None, resp_url = ''http://example.com/favicon.ico'',
            icon_link = None, decoded = Some (PilImage ''ICO'' 32 32 [(32, 32)])\<rparr> [])
        ''http://example.com/favicon.ico'' ''example.ico'' 0 initial) = Inr ()
   \<and> trace (snd (get_favicon
        (serving \<lparr>status_code = 300, location = None, resp_url = ''http://example.com/favicon.ico'',
            icon_link = None, decoded = Some (PilImage ''ICO'' 32 32 [(32, 32)])\<rparr> [])
        ''http://example.com/favicon.ico'' ''example.ico'' 0 initial))
     = [Log DEBUG (Trying ''http://example.com/favicon.ico''),
        HttpGet ''http://example.com/favicon.ico'',
        ImageOpen,
        Log DEBUG (DecodedAs ''ICO'' 32 32 ''http://example.com/favicon.ico''),
        ImageSave ''example.ico'',
        Log DEBUG (SavedAs ''example.ico'')]"
  by (simp add: get_favicon_def serving_def initial_def emit_def raise_for_status_def
      resize_picture_def save_picture_def)

text \<open>
  Claim C2, amended. When the response to the GET of the favicon URL has a status from 400
  to 599, \<open>get_favicon\<close> raises an HTTP error that carries this status, and it does so
  before the body is decoded: after the debug message and the request nothing else happens,
  in particular \<open>Image.open\<close> is not called. For every other status, also one outside 200
  to 299, no HTTP error is raised for the status: \<open>Image.open\<close> is called on the body
  right after the request, and the function goes on as for status 200 (it raises the decoding
  error when the body is not an image, and resizes and saves otherwise).
\<close>

theorem get_favicon_http_error:
  "http_get w (trace (emit (Log DEBUG (Trying url)) s)) url = Inr r \<Longrightarrow>
   s2 = emit (HttpGet url) (emit (Log DEBUG (Trying url)) s) \<Longrightarrow>
   (400 \<le> status_code r \<and> status_code r < 600 \<longrightarrow>
      get_favicon w url filename resize s = (Inl (HTTPError (status_code r)), s2)
      \<and> ImageOpen \<notin> set (drop (length (trace s))
                             (trace (snd (get_favicon w url filename resize s)))))
   \<and> (\<not> (400 \<le> status_code r \<and> status_code r < 600) \<longrightarrow>
        get_favicon w url filename resize s =
          (case decoded r of
             None \<Rightarrow> (Inl UnidentifiedImageError, emit ImageOpen s2)
           | Some favicon \<Rightarrow>
               (case resize_picture favicon resize
                       (emit (Log DEBUG (DecodedAs (img_format favicon) (img_width favicon)
                                (img_height favicon) (resp_url r)))
                          (emit ImageOpen s2)) of
                  (favicon', s4) \<Rightarrow> save_picture w favicon' filename s4))
        \<and> take 3 (drop (length (trace s)) (trace (snd (get_favicon w url filename resize s))))
            = [Log DEBUG (Trying url), HttpGet url, ImageOpen])"
proof -
  assume g: "http_get w (trace (emit (Log DEBUG (Trying url)) s)) url = Inr r"
    and s2: "s2 = emit (HttpGet url) (emit (Log DEBUG (Trying url)) s)"
  have t2: "trace s2 = trace s @ [Log DEBUG (Trying url), HttpGet url]"
    by (simp add: s2 emit_def)
  have a: "400 \<le> status_code r \<and> status_code r < 600 \<longrightarrow>
      get_favicon w url filename resize s = (Inl (HTTPError (status_code r)), s2)
      \<and> ImageOpen \<notin> set (drop (length (trace s))
                             (trace (snd (get_favicon w url filename resize s))))"
    using g by (simp add: get_favicon_def raise_for_status_def Let_def s2 emit_def)
  have b: "\<not> (400 \<le> status_code r \<and> status_code r < 600) \<longrightarrow>
        get_favicon w url filename resize s =
          (case decoded r of
             None \<Rightarrow> (Inl UnidentifiedImageError, emit ImageOpen s2)
           | Some favicon \<Rightarrow>
               (case resize_picture favicon resize
                       (emit (Log DEBUG (DecodedAs (img_format favicon) (img_width favicon)
                                (img_height favicon) (resp_url r)))
                          (emit ImageOpen s2)) of
                  (favicon', s4) \<Rightarrow> save_picture w favicon' filename s4))
        \<and> take 3 (drop (length (trace s)) (trace (snd (get_favicon w url filename resize s))))
            = [Log DEBUG (Trying url), HttpGet url, ImageOpen]"
  proof
    assume n: "\<not> (400 \<le> status_code r \<and> status_code r < 600)"
    then have rs: "(if status_code r \<noteq> 200 then raise_for_status r else None) = None"
      by (simp add: raise_for_status_def)
    have e: "get_favicon w url filename resize s =
          (case decoded r of
             None \<Rightarrow> (Inl UnidentifiedImageError, emit ImageOpen s2)
           | Some favicon \<Rightarrow>
               (case resize_picture favicon resize
                       (emit (Log DEBUG (DecodedAs (img_format favicon) (img_width favicon)
                                (img_height favicon) (resp_url r)))
                          (emit ImageOpen s2)) of
                  (favicon', s4) \<Rightarrow> save_picture w favicon' filename s4))"
      using g rs by (simp add: get_favicon_def Let_def s2 split: option.splits)
    have "\<exists>evs. trace (snd (get_favicon w url filename resize s))
              = trace s @ [Log DEBUG (Trying url), HttpGet url, ImageOpen] @ evs"
    proof (cases "decoded r")
      case None
      with e t2 show ?thesis by (simp add: emit_def)
    next
      case (Some favicon)
      define s3 where "s3 = emit (Log DEBUG (DecodedAs (img_format favicon) (img_width favicon)
                                (img_height favicon) (resp_url r))) (emit ImageOpen s2)"
      obtain pic s4 where rp: "resize_picture favicon resize s3 = (pic, s4)"
        by (cases "resize_picture favicon resize s3")
      obtain r5 s5 where sp: "save_picture w pic filename s4 = (r5, s5)"
        by (cases "save_picture w pic filename s4")
      from resize_picture_trace [OF rp] obtain e1 where e1: "trace s4 = trace s3 @ e1" by blast
      from save_picture_trace [OF sp] obtain e2 where e2: "trace s5 = trace s4 @ e2" by blast
      have "get_favicon w url filename resize s = (r5, s5)"
        using e Some rp sp by (simp add: s3_def)
      moreover have "trace s3 = trace s @ [Log DEBUG (Trying url), HttpGet url, ImageOpen]
          @ [Log DEBUG (DecodedAs (img_format favicon) (img_width favicon)
                                (img_height favicon) (resp_url r))]"
        using t2 by (simp add: s3_def emit_def)
      ultimately show ?thesis using e1 e2 by simp
    qed
    then have "take 3 (drop (length (trace s)) (trace (snd (get_favicon w url filename resize s))))
            = [Log DEBUG (Trying url), HttpGet url, ImageOpen]" by auto
    with e show "get_favicon w url filename resize s =
          (case decoded r of
             None \<Rightarrow> (Inl UnidentifiedImageError, emit ImageOpen s2)
           | Some favicon \<Rightarrow>
               (case resize_picture favicon resize
                       (emit (Log DEBUG (DecodedAs (img_format favicon) (img_width favicon)
                                (img_height favicon) (resp_url r)))
                          (emit ImageOpen s2)) of
                  (favicon', s4) \<Rightarrow> save_picture w favicon' filename s4))
        \<and> take 3 (drop (length (trace s)) (trace (snd (get_favicon w url filename resize s))))
            = [Log DEBUG (Trying url), HttpGet url, ImageOpen]" by simp
  qed
  from a b show ?thesis by (rule conjI)
qed

theorem get_favicon_http_error_witness:
  "get_favicon
        (serving \<lparr>status_code = 404, location = None, resp_url = ''http://example.com/favicon.ico'',
            icon_link = None, decoded = None\<rparr> [])
        ''http://example.com/favicon.ico'' ''example.ico'' 0 initial
     = (Inl (HTTPError 404),
        \<lparr>trace = [Log DEBUG (Trying ''http://example.com/favicon.ico''),
                  HttpGet ''http://example.com/favicon.ico''],
         files = Map.empty\<rparr>)
   \<and> get_favicon
        (serving \<lparr>status_code = 300, location = None, resp_url = ''http://example.com/favicon.ico'',
            icon_link = None, decoded = None\<rparr> [])
        ''http://example.com/favicon.ico'' ''example.ico'' 0 initial
     = (Inl UnidentifiedImageError,
        \<lparr>trace = [Log DEBUG (Trying ''http://example.com/favicon.ico''),
                  HttpGet ''http://example.com/favicon.ico'', ImageOpen],
         files = Map.empty\<rparr>)"
proof -
  let ?r = "\<lparr>status_code = 404, location = None, resp_url = ''http://example.com/favicon.ico'',
            icon_link = None, decoded = None\<rparr>"
  let ?q = "\<lparr>status_code = 300, location = None, resp_url = ''http://example.com/favicon.ico'',
            icon_link = None, decoded = None\<rparr>"
  let ?u = "''http://example.com/favicon.ico''"
  have g1: "http_get (serving ?r []) (trace (emit (Log DEBUG (Trying ?u)) initial)) ?u = Inr ?r"
    by (simp add: serving_def)
  have g2: "http_get (serving ?q []) (trace (emit (Log DEBUG (Trying ?u)) initial)) ?u = Inr ?q"
    by (simp add: serving_def)
  from get_favicon_http_error [OF g1 refl, of "''example.ico''" 0]
       get_favicon_http_error [OF g2 refl, of "''example.ico''" 0]
  show ?thesis by (simp add: initial_def emit_def)
qed

text \<open>
  Claim C6. For a decoded image and a resize request with a positive size: when the format
  is ICO and the file embeds a frame of exactly that square size, \<open>get_favicon\<close> takes
  this frame by \<open>getimage\<close>, and \<open>resize\<close> is not called; in every other case it calls
  \<open>resize\<close> with that square size and the bicubic filter. What is saved is the picture
  so obtained.
\<close>

theorem get_favicon_resize:
  "http_get w (trace (emit (Log DEBUG (Trying url)) s)) url = Inr r \<Longrightarrow>
   raise_for_status r = None \<Longrightarrow>
   decoded r = Some favicon \<Longrightarrow>
   resize > 0 \<Longrightarrow>
   s3 = emit (Log DEBUG (DecodedAs (img_format favicon) (img_width favicon) (img_height favicon)
               (resp_url r)))
          (emit ImageOpen (emit (HttpGet url) (emit (Log DEBUG (Trying url)) s))) \<Longrightarrow>
   get_favicon w url filename resize s =
     (if img_format favicon = ''ICO'' \<and> (resize, resize) \<in> set (img_sizes favicon)
      then save_picture w (Frame favicon (resize, resize)) filename
             (emit (Log DEBUG (ResizedTo resize resize)) (emit (IcoGetimage (resize, resize)) s3))
      else save_picture w (Resampled favicon (resize, resize) BICUBIC) filename
             (emit (Log DEBUG (ResizedTo resize resize))
                (emit (ImageResize (resize, resize) BICUBIC) s3)))"
  by (simp add: get_favicon_def resize_picture_def Let_def)

theorem get_favicon_resize_witness:
  "trace (snd (get_favicon
      (serving \<lparr>status_code = 200, location = None, resp_url = ''http://example.com/favicon.ico'',
          icon_link = None, decoded = Some (PilImage ''ICO'' 32 32 [(16, 16), (32, 32)])\<rparr> [])
      ''http://example.com/favicon.ico'' ''example.png'' 16 initial))
   = [Log DEBUG (Trying ''http://example.com/favicon.ico''),
      HttpGet ''http://example.com/favicon.ico'',
      ImageOpen,
      Log DEBUG (DecodedAs ''ICO'' 32 32 ''http://example.com/favicon.ico''),
      IcoGetimage (16, 16),
      Log DEBUG (ResizedTo 16 16),
      ImageSave ''example.png'',
      Log DEBUG (SavedAs ''example.png'')]
   \<and> files (snd (get_favicon
      (serving \<lparr>status_code = 200, location = None, resp_url = ''http://example.com/favicon.ico'',
          icon_link = None, decoded = Some (PilImage ''ICO'' 32 32 [(16, 16), (32, 32)])\<rparr> [])
      ''http://example.com/favicon.ico'' ''example.png'' 16 initial)) ''example.png''
   = Some (Frame (PilImage ''ICO'' 32 32 [(16, 16), (32, 32)]) (16, 16))"
  using get_favicon_resize [of
      "serving \<lparr>status_code = 200, location = None, resp_url = ''http://example.com/favicon.ico'',
          icon_link = None, decoded = Some (PilImage ''ICO'' 32 32 [(16, 16), (32, 32)])\<rparr> []"
      "''http://example.com/favicon.ico''" initial
      "\<lparr>status_code = 200, location = None, resp_url = ''http://example.com/favicon.ico'',
          icon_link = None, decoded = Some (PilImage ''ICO'' 32 32 [(16, 16), (32, 32)])\<rparr>"
      "PilImage ''ICO'' 32 32 [(16, 16), (32, 32)]" 16 _ "''example.png''"]
  by (simp add: serving_def initial_def emit_def raise_for_status_def save_picture_def)

section \<open>Probing the default locations\<close>

lemma find_reference_probe:
  "http_get w (trace s) url = Inr r \<Longrightarrow> declared_reference r = [] \<Longrightarrow>
   find_reference w url p s =
     probe_defaults w (scheme p @ ''://'' @ netloc p @ ''/favicon.'') [''png'', ''ico'']
       (emit (HttpGet url) s)"
  by (simp add: find_reference_def del: probe_defaults.simps)

lemma probe_png_ico:
  "probe_defaults w b [''png'', ''ico''] s1 =
     (case http_head w (trace s1) (b @ ''png'') of
        Inl e \<Rightarrow> (Inl e, emit (HttpHead (b @ ''png'')) s1)
      | Inr r1 \<Rightarrow>
          if is_redirect r1 then (Inr (the (location r1)), emit (HttpHead (b @ ''png'')) s1)
          else if status_code r1 = 200 then (Inr (resp_url r1), emit (HttpHead (b @ ''png'')) s1)
          else
            (case http_head w (trace (emit (HttpHead (b @ ''png'')) s1)) (b @ ''ico'') of
               Inl e \<Rightarrow> (Inl e, emit (HttpHead (b @ ''ico'')) (emit (HttpHead (b @ ''png'')) s1))
             | Inr r2 \<Rightarrow>
                 if is_redirect r2
                 then (Inr (the (location r2)),
                       emit (HttpHead (b @ ''ico'')) (emit (HttpHead (b @ ''png'')) s1))
                 else if status_code r2 = 200
                 then (Inr (resp_url r2),
                       emit (HttpHead (b @ ''ico'')) (emit (HttpHead (b @ ''png'')) s1))
                 else (Inr [], emit (HttpHead (b @ ''ico'')) (emit (HttpHead (b @ ''png'')) s1))))"
  by (auto simp: is_redirect_def split: sum.splits option.splits)

text \<open>
  Claim C9. When the page comes with status 200 and its \<open>link rel=icon\<close> element has an
  empty \<open>href\<close>, \<open>get_favicon_url\<close> does not return the empty reference; it probes
  the default locations: it sends a HEAD to \<open>/favicon.png\<close> on the page's scheme and
  host and takes the \<open>Location\<close> header of a redirect or the URL of a 200 response; only
  when this reply is neither does it send a HEAD to \<open>/favicon.ico\<close>, read in the same
  way; when that is neither as well the result is empty. An exception of a HEAD request
  leaves the function. The reference found is resolved like a declared one. The whole run
  equals the run in the world where the same page has no \<open>link rel=icon\<close> element.
\<close>

theorem empty_href_probes_defaults:
  "urlparse (ipv6_ok w) url = Inr p \<Longrightarrow>
   http_get w (trace s) url = Inr r \<Longrightarrow>
   status_code r = 200 \<Longrightarrow>
   icon_link r = Some (Some []) \<Longrightarrow>
   png = scheme p @ ''://'' @ netloc p @ ''/favicon.png'' \<Longrightarrow>
   ico = scheme p @ ''://'' @ netloc p @ ''/favicon.ico'' \<Longrightarrow>
   s1 = emit (HttpGet url) s \<Longrightarrow>
   s2 = emit (HttpHead png) s1 \<Longrightarrow>
   s3 = emit (HttpHead ico) s2 \<Longrightarrow>
   get_favicon_url w url s =
     (case http_head w (trace s1) png of
        Inl e \<Rightarrow> (Inl e, s2)
      | Inr r1 \<Rightarrow>
          if is_redirect r1 then (Inr (resolve p (the (location r1))), s2)
          else if status_code r1 = 200 then (Inr (resolve p (resp_url r1)), s2)
          else
            (case http_head w (trace s2) ico of
               Inl e \<Rightarrow> (Inl e, s3)
             | Inr r2 \<Rightarrow>
                 if is_redirect r2 then (Inr (resolve p (the (location r2))), s3)
                 else if status_code r2 = 200 then (Inr (resolve p (resp_url r2)), s3)
                 else (Inr [], s3)))
   \<and> get_favicon_url w url s =
       get_favicon_url (w\<lparr>http_get := \<lambda>tr u. Inr (r\<lparr>icon_link := None\<rparr>)\<rparr>) url s"
proof -
  assume u: "urlparse (ipv6_ok w) url = Inr p" and g: "http_get w (trace s) url = Inr r"
    and st: "status_code r = 200" and l: "icon_link r = Some (Some [])"
    and png: "png = scheme p @ ''://'' @ netloc p @ ''/favicon.png''"
    and ico: "ico = scheme p @ ''://'' @ netloc p @ ''/favicon.ico''"
    and s1: "s1 = emit (HttpGet url) s" and s2: "s2 = emit (HttpHead png) s1"
    and s3: "s3 = emit (HttpHead ico) s2"
  define b where "b = scheme p @ ''://'' @ netloc p @ ''/favicon.''"
  define w' where "w' = w\<lparr>http_get := \<lambda>tr u. Inr (r\<lparr>icon_link := None\<rparr>)\<rparr>"
  have bp: "b @ ''png'' = png" and bi: "b @ ''ico'' = ico" by (simp_all add: b_def png ico)
  have d: "declared_reference r = []" using st l by (simp add: declared_reference_def)
  have d': "declared_reference (r\<lparr>icon_link := None\<rparr>) = []" by (simp add: declared_reference_def)
  have fr: "find_reference w url p s = probe_defaults w b [''png'', ''ico''] s1"
    unfolding b_def s1 by (rule find_reference_probe [OF g d])
  have same: "probe_defaults w' c es t = probe_defaults w c es t" for c es t
    by (induction es arbitrary: t) (simp_all add: w'_def split: sum.splits)
  have g': "http_get w' (trace s) url = Inr (r\<lparr>icon_link := None\<rparr>)"
    by (simp add: w'_def)
  have "find_reference w' url p s = probe_defaults w' b [''png'', ''ico''] s1"
    unfolding b_def s1 by (rule find_reference_probe [OF g' d'])
  then have fr': "find_reference w' url p s = find_reference w url p s"
    by (simp only: same fr)
  have res0: "resolve p [] = []" by (simp add: resolve_def)
  have pd: "probe_defaults w b [''png'', ''ico''] s1 =
     (case http_head w (trace s1) png of
        Inl e \<Rightarrow> (Inl e, s2)
      | Inr r1 \<Rightarrow>
          if is_redirect r1 then (Inr (the (location r1)), s2)
          else if status_code r1 = 200 then (Inr (resp_url r1), s2)
          else
            (case http_head w (trace s2) ico of
               Inl e \<Rightarrow> (Inl e, s3)
             | Inr r2 \<Rightarrow>
                 if is_redirect r2 then (Inr (the (location r2)), s3)
                 else if status_code r2 = 200 then (Inr (resp_url r2), s3)
                 else (Inr [], s3)))"
    unfolding s3 s2 bp [symmetric] bi [symmetric] by (rule probe_png_ico)
  have gf: "get_favicon_url w url s =
     (case find_reference w url p s of
        (Inl e, s') \<Rightarrow> (Inl e, s')
      | (Inr f, s') \<Rightarrow> (Inr (resolve p f), s'))"
    using u by (simp add: get_favicon_url_def)
  have c1: "get_favicon_url w url s =
     (case http_head w (trace s1) png of
        Inl e \<Rightarrow> (Inl e, s2)
      | Inr r1 \<Rightarrow>
          if is_redirect r1 then (Inr (resolve p (the (location r1))), s2)
          else if status_code r1 = 200 then (Inr (resolve p (resp_url r1)), s2)
          else
            (case http_head w (trace s2) ico of
               Inl e \<Rightarrow> (Inl e, s3)
             | Inr r2 \<Rightarrow>
                 if is_redirect r2 then (Inr (resolve p (the (location r2))), s3)
                 else if status_code r2 = 200 then (Inr (resolve p (resp_url r2)), s3)
                 else (Inr [], s3)))"
    unfolding gf fr pd
    by (simp add: res0 split: sum.splits)
  have "ipv6_ok w' = ipv6_ok w" by (simp add: w'_def)
  then have c2: "get_favicon_url w url s = get_favicon_url w' url s"
    using u fr' by (simp add: get_favicon_url_def)
  from c1 c2 show ?thesis unfolding w'_def by (rule conjI)
qed

theorem empty_href_probes_defaults_witness:
  "get_favicon_url (icon_moved ''/static/favicon.ico'') ''https://example.com/about'' initial
   = (Inr ''https://example.com/static/favicon.ico'',
      \<lparr>trace = [HttpGet ''https://example.com/about'',
                HttpHead ''https://example.com/favicon.png'',
                HttpHead ''https://example.com/favicon.ico''],
       files = Map.empty\<rparr>)"
proof -
  let ?w = "icon_moved ''/static/favicon.ico''"
  let ?r = "\<lparr>status_code = 200, location = None, resp_url = ''https://example.com/about'',
             icon_link = Some (Some []), decoded = None\<rparr>"
  have u: "urlparse (ipv6_ok ?w) ''https://example.com/about''
     = Inr \<lparr>scheme = ''https'', netloc = ''example.com'', path = ''/about'', params = [],
            query = [], fragment = []\<rparr>"
    by (simp add: icon_moved_def url_defs char_defs)
  have g: "http_get ?w (trace initial) ''https://example.com/about'' = Inr ?r"
    by (simp add: icon_moved_def)
  have st: "status_code ?r = 200" by simp
  have l: "icon_link ?r = Some (Some [])" by simp
  from empty_href_probes_defaults [OF u g st l refl refl refl refl refl]
  show ?thesis
    by (simp add: icon_moved_def initial_def emit_def is_redirect_def resolve_def
        startswith_def endswith_def)
qed

section \<open>The URL-list driver\<close>







lemma get_favicons_try_lookup_only:
  "get_favicons_try w url od png rs False s = (r, od', s') \<Longrightarrow>
   od' = od \<and> files s' = files s \<and>
   (\<exists>evs. trace s' = trace s @ evs \<and> list_all (\<lambda>e. is_request e \<or> is_print e) evs)"
proof -
  assume a: "get_favicons_try w url od png rs False s = (r, od', s')"
  obtain r1 s1 where u: "get_favicon_url w url s = (r1, s1)" by (cases "get_favicon_url w url s")
  from get_favicon_url_events [OF u] obtain e1
    where f1: "files s1 = files s" and t1: "trace s1 = trace s @ e1" and l1: "list_all is_request e1"
    by blast
  from l1 have l1': "list_all (\<lambda>e. is_request e \<or> is_print e) e1"
    by (induction e1) auto
  from a u have "od' = od \<and> (s' = s1 \<or> (\<exists>fav. s' = emit (Print fav) s1))"
    by (auto simp: get_favicons_try_def split: sum.splits if_splits)
  with f1 t1 l1' show ?thesis by (auto simp: emit_def)
qed

lemma get_favicons_try_ignores_options:
  "get_favicons_try w url od png rs False s = (r, od', s') \<Longrightarrow>
   \<exists>od''. get_favicons_try w url odx pngx rsx False s = (r, od'', s')"
  by (auto simp: get_favicons_try_def split: sum.splits prod.splits if_splits)

lemma get_favicons_ignores_options:
  "get_favicons w urls od png rs False s = get_favicons w urls odx pngx rsx False s"
proof (induction urls arbitrary: od odx s)
  case Nil
  show ?case by simp
next
  case (Cons url urls)
  obtain r od' s' where t: "get_favicons_try w (normalize_url url) od png rs False s = (r, od', s')"
    by (cases "get_favicons_try w (normalize_url url) od png rs False s")
  from get_favicons_try_ignores_options [OF t, of odx pngx rsx] obtain od''
    where t': "get_favicons_try w (normalize_url url) odx pngx rsx False s = (r, od'', s')"
    by blast
  show ?case
  proof (cases r)
    case (Inl e)
    with t t' Cons.IH show ?thesis by simp
  next
    case (Inr u)
    with t t' Cons.IH show ?thesis by simp
  qed
qed

lemma get_favicons_lookup_only:
  "files (get_favicons w urls od png rs False s) = files s \<and>
   (\<exists>evs. trace (get_favicons w urls od png rs False s) = trace s @ evs
      \<and> list_all (\<lambda>e. is_request e \<or> is_print e \<or> is_error_log e) evs)"
proof (induction urls arbitrary: od s)
  case Nil
  show ?case by simp
next
  case (Cons url urls)
  obtain r od' s' where t: "get_favicons_try w (normalize_url url) od png rs False s = (r, od', s')"
    by (cases "get_favicons_try w (normalize_url url) od png rs False s")
  from get_favicons_try_lookup_only [OF t] obtain e1
    where f1: "files s' = files s" and t1: "trace s' = trace s @ e1"
      and l1: "list_all (\<lambda>e. is_request e \<or> is_print e) e1" by blast
  from l1 have l1': "list_all (\<lambda>e. is_request e \<or> is_print e \<or> is_error_log e) e1"
    by (induction e1) auto
  show ?case
  proof (cases r)
    case (Inl e)
    define l where "l = Log ERROR (if e = ConnectionError
                 then CannotConnect (Str (normalize_url url)) else except_other e)"
    have step: "get_favicons w (url # urls) od png rs False s
          = get_favicons w urls od' png rs False (emit l s')"
      using t Inl by (simp add: l_def)
    from Cons.IH [of od' "emit l s'"] obtain e2
      where f2: "files (get_favicons w urls od' png rs False (emit l s')) = files (emit l s')"
        and t2: "trace (get_favicons w urls od' png rs False (emit l s')) = trace (emit l s') @ e2"
        and l2: "list_all (\<lambda>e. is_request e \<or> is_print e \<or> is_error_log e) e2" by blast
    have "is_error_log l" by (simp add: l_def)
    with l1' l2 have "list_all (\<lambda>e. is_request e \<or> is_print e \<or> is_error_log e) (e1 @ l # e2)"
      by simp
    moreover have "trace (get_favicons w (url # urls) od png rs False s) = trace s @ (e1 @ l # e2)"
      using step t2 t1 by (simp add: emit_def)
    moreover have "files (get_favicons w (url # urls) od png rs False s) = files s"
      using step f2 f1 by (simp add: emit_def)
    ultimately show ?thesis by blast
  next
    case (Inr u)
    have step: "get_favicons w (url # urls) od png rs False s
          = get_favicons w urls od' png rs False s'"
      using t Inr by simp
    from Cons.IH [of od' s'] obtain e2
      where f2: "files (get_favicons w urls od' png rs False s') = files s'"
        and t2: "trace (get_favicons w urls od' png rs False s') = trace s' @ e2"
        and l2: "list_all (\<lambda>e. is_request e \<or> is_print e \<or> is_error_log e) e2" by blast
    from l1' l2 have "list_all (\<lambda>e. is_request e \<or> is_print e \<or> is_error_log e) (e1 @ e2)"
      by simp
    moreover have "trace (get_favicons w (url # urls) od png rs False s) = trace s @ (e1 @ e2)"
      using step t2 t1 by simp
    moreover have "files (get_favicons w (url # urls) od png rs False s) = files s"
      using step f2 f1 by simp
    ultimately show ?thesis by blast
  qed
qed

text \<open>
  Claim C10, as stated, lists the requests and the printed URLs as the only effects of the
  print-only mode. A URL that fails also leaves an error message in the log.
\<close>

theorem print_only_mode_counterexample:
  "trace (get_favicons (offline []) [''example.com''] [] True 0 False initial)
     = [HttpGet ''https://example.com'', Log ERROR (CannotConnect (Str ''https://example.com''))]
   \<and> \<not> list_all (\<lambda>e. is_request e \<or> is_print e)
         (trace (get_favicons (offline []) [''example.com''] [] True 0 False initial))"
  by (simp add: run_defs url_defs char_defs)

text \<open>
  Claim C10, amended. With \<open>get=False\<close>, \<open>get_favicons\<close> writes no file and derives no
  file name for any URL: the files are what they were, the result does not depend on
  \<open>output_dir\<close>, \<open>png\<close> and \<open>resize\<close>, and everything it does is a GET or HEAD
  request of the favicon location, the printing of a resolved favicon URL, or an error-level
  log message for a URL that failed.
\<close>

theorem print_only_mode_effects:
  "files (get_favicons w urls output_dir png resize False s) = files s
   \<and> (\<exists>evs. trace (get_favicons w urls output_dir png resize False s) = trace s @ evs
        \<and> list_all (\<lambda>e. is_request e \<or> is_print e \<or> is_error_log e) evs)
   \<and> get_favicons w urls output_dir png resize False s
       = get_favicons w urls output_dir' png' resize' False s"
  using get_favicons_lookup_only [of w urls output_dir png resize s]
    get_favicons_ignores_options [of w urls output_dir png resize s output_dir' png' resize']
  by blast

theorem print_only_mode_effects_witness:
  "trace (get_favicons
      (serving \<lparr>status_code = 200, location = None, resp_url = ''https://example.com'',
          icon_link = Some (Some ''/icon.png''), decoded = None\<rparr> [])
      [''example.com''] ''icons'' True 16 False initial)
     = [HttpGet ''https://example.com'', Print ''https://example.com/icon.png'']
   \<and> files (get_favicons
      (serving \<lparr>status_code = 200, location = None, resp_url = ''https://example.com'',
          icon_link = Some (Some ''/icon.png''), decoded = None\<rparr> [])
      [''example.com''] ''icons'' True 16 False initial) = Map.empty"
  using print_only_mode_effects [of
      "serving \<lparr>status_code = 200, location = None, resp_url = ''https://example.com'',
          icon_link = Some (Some ''/icon.png''), decoded = None\<rparr> []"
      "[''example.com'']" "''icons''" True 16 initial "[]" False 0]
  by (simp add: run_defs url_defs char_defs)

section \<open>The interwiki driver\<close>

text \<open>
  Claim C7. In interwiki mode with \<open>force=False\<close>, for a line that is a valid entry
  whose destination \<open>name.png\<close> exists in the icon directory: the entry is skipped with
  the info message that the icon exists and nothing else, so no request is made and no error
  is logged, the files are unchanged, and the scan goes on with the next line.
\<close>

theorem existing_icon_is_skipped:
  "interwiki_fullmatch (str_strip line) = Some (name, target) \<Longrightarrow>
   files s (os_path_join images_dir [name @ ''.png'']) = Some pic \<Longrightarrow>
   interwiki_try w images_dir False line s = (Inr Skipped, emit (Log INFO (IconExists name)) s)
   \<and> scan_lines w images_dir False (line # lines) s
       = scan_lines w images_dir False lines (emit (Log INFO (IconExists name)) s)
   \<and> trace (emit (Log INFO (IconExists name)) s) = trace s @ [Log INFO (IconExists name)]
   \<and> files (emit (Log INFO (IconExists name)) s) = files s"
  by (simp add: interwiki_try_def isfile_def emit_def)

theorem existing_icon_is_skipped_witness:
  "interwiki_fullmatch (str_strip ''wp        https://en.wikipedia.org/wiki/{NAME}'')
     = Some (''wp'', ''https://en.wikipedia.org/wiki/{NAME}'')
   \<and> scan_lines (offline []) ''/srv/wiki/lib/images/interwiki'' False
        [''wp        https://en.wikipedia.org/wiki/{NAME}'']
        \<lparr>trace = [], files = [''/srv/wiki/lib/images/interwiki/wp.png''
            \<mapsto> Original (PilImage ''PNG'' 16 16 [])]\<rparr>
     = (Inr (), \<lparr>trace = [Log INFO (IconExists ''wp'')],
          files = [''/srv/wiki/lib/images/interwiki/wp.png''
            \<mapsto> Original (PilImage ''PNG'' 16 16 [])]\<rparr>)"
proof -
  have m: "interwiki_fullmatch (str_strip ''wp        https://en.wikipedia.org/wiki/{NAME}'')
     = Some (''wp'', ''https://en.wikipedia.org/wiki/{NAME}'')"
    by (simp add: interwiki_fullmatch_def str_strip_def char_defs)
  have f: "files \<lparr>trace = [], files = [''/srv/wiki/lib/images/interwiki/wp.png''
            \<mapsto> Original (PilImage ''PNG'' 16 16 [])]\<rparr>
          (os_path_join ''/srv/wiki/lib/images/interwiki'' [''wp'' @ ''.png''])
        = Some (Original (PilImage ''PNG'' 16 16 []))"
    by (simp add: os_path_join_def path_join2_def startswith_def endswith_def)
  from existing_icon_is_skipped [OF m f, of "offline []" "[]"]
  show ?thesis using m by (simp add: emit_def)
qed

text \<open>
  Claim C1 says that in interwiki mode no failure of an entry aborts the scan. The handler
  of \<open>requests.ConnectionError\<close> logs \<open>args.url\<close>, and \<open>args\<close> is a global that
  exists only when the file runs as a script; the same handler of \<open>get_favicons\<close> logs
  the local \<open>url\<close>. When \<open>get_dokuwiki_interwiki_icons\<close> is called from a module that
  imported it and the host of the first entry cannot be reached, the handler raises
  \<open>NameError\<close> and the second entry is never looked at. With \<open>args\<close> defined the same
  input is scanned to the end.
\<close>

theorem connection_error_aborts_scan:
  "fst (get_dokuwiki_interwiki_icons
          (offline [''wp https://en.wikipedia.org/wiki/{NAME}'', ''doku https://www.dokuwiki.org/{NAME}''])
          ''/srv/wiki'' False initial) = Inl (NameError ''args'')
   \<and> trace (snd (get_dokuwiki_interwiki_icons
          (offline [''wp https://en.wikipedia.org/wiki/{NAME}'', ''doku https://www.dokuwiki.org/{NAME}''])
          ''/srv/wiki'' False initial)) = [HttpGet ''https://en.wikipedia.org/'']
   \<and> fst (get_dokuwiki_interwiki_icons
          ((offline [''wp https://en.wikipedia.org/wiki/{NAME}'', ''doku https://www.dokuwiki.org/{NAME}''])
             \<lparr>args_url := Some []\<rparr>)
          ''/srv/wiki'' False initial) = Inr ()
   \<and> trace (snd (get_dokuwiki_interwiki_icons
          ((offline [''wp https://en.wikipedia.org/wiki/{NAME}'', ''doku https://www.dokuwiki.org/{NAME}''])
             \<lparr>args_url := Some []\<rparr>)
          ''/srv/wiki'' False initial))
       = [HttpGet ''https://en.wikipedia.org/'', Log ERROR (CannotConnect (StrList [])),
          HttpGet ''https://www.dokuwiki.org/'', Log ERROR (CannotConnect (StrList []))]"
  by (simp add: get_dokuwiki_interwiki_icons_def interwiki_try_def interwiki_fullmatch_def
      str_strip_def os_path_join_def path_join2_def isfile_def run_defs url_defs char_defs)

text \<open>
  When the file runs as a script, so that \<open>args\<close> exists, the scan never ends in an
  exception, whatever the lines and the world.
\<close>

lemma scan_lines_completes_as_script:
  "args_url w = Some urls \<Longrightarrow> fst (scan_lines w images_dir force lines s) = Inr ()"
proof (induction lines arbitrary: s)
  case Nil
  show ?case by simp
next
  case (Cons line lines)
  obtain r s' where t: "interwiki_try w images_dir force line s = (r, s')"
    by (cases "interwiki_try w images_dir force line s")
  show ?case
  proof (cases r)
    case (Inl e)
    with t Cons show ?thesis by simp
  next
    case (Inr out)
    with t Cons show ?thesis by (cases out) simp_all
  qed
qed

text \<open>
  The file is read while the loop runs, outside the \<open>try\<close>: an error of reading it
  leaves the function after the lines before it have been processed.
\<close>

lemma read_error_after_scan:
  "makedirs_error w (os_path_join (abspath w home) [''lib'', ''images'', ''interwiki'']) = None \<Longrightarrow>
   open_lines w (os_path_join (abspath w home) [''conf'', ''interwiki.local.conf''])
     = Inr (lines, Some e) \<Longrightarrow>
   scan_lines w (os_path_join (abspath w home) [''lib'', ''images'', ''interwiki'']) force lines s
     = (Inr (), s') \<Longrightarrow>
   get_dokuwiki_interwiki_icons w home force s = (Inl e, s')"
  by (simp add: get_dokuwiki_interwiki_icons_def Let_def)

section \<open>Parsing a rebuilt URL\<close>

text \<open>
  A URL put together from the scheme and the network location of a parsed URL, followed by
  a path that starts with a slash, parses again, to the same scheme and network location.
\<close>

lemma scheme_char_not_colon: "is_scheme_char c \<Longrightarrow> c \<noteq> CHR '':''"
  by (auto simp: char_defs)

lemma scheme_char_safe: "is_scheme_char c \<Longrightarrow> \<not> is_unsafe_byte c"
  by (auto simp: char_defs)

lemma alpha_not_c0: "is_ascii_alpha c \<Longrightarrow> \<not> is_c0_or_space c"
  by (auto simp: char_defs)

lemma lower_char_alpha: "is_ascii_alpha c \<Longrightarrow> is_ascii_alpha (lower_char c)"
  by (auto simp: char_defs)

lemma lower_char_scheme: "is_scheme_char c \<Longrightarrow> is_scheme_char (lower_char c)"
  by (auto simp: char_defs)

lemma lower_char_idem: "lower_char (lower_char c) = lower_char c"
  by (auto simp: char_defs)

lemma split_scheme_props:
  assumes "split_scheme u = (sch, rest)" and "sch \<noteq> []"
  shows "list_all is_scheme_char sch" and "is_ascii_alpha (hd sch)"
    and "map lower_char sch = sch"
proof -
  define pre where "pre = takeWhile (\<lambda>c. c \<noteq> CHR '':'') u"
  from assms have c: "pre \<noteq> []" "is_ascii_alpha (hd u)" "list_all is_scheme_char pre"
    and s: "sch = map lower_char pre"
    by (auto simp: split_scheme_def Let_def pre_def split: if_splits)
  from c(1) have "hd pre = hd u" unfolding pre_def by (cases u) (auto split: if_splits)
  with c s show "is_ascii_alpha (hd sch)" by (simp add: hd_map lower_char_alpha)
  from c(3) s show "list_all is_scheme_char sch"
    by (simp add: list_all_iff lower_char_scheme)
  from s show "map lower_char sch = sch" by (simp add: lower_char_idem)
qed

lemma split_netloc_props:
  assumes "split_netloc u = (nl, rest)"
  shows "list_all (\<lambda>c. \<not> is_netloc_delim c) nl" and "set nl \<subseteq> set u"
proof -
  from assms have "nl = [] \<or> nl = takeWhile (\<lambda>c. \<not> is_netloc_delim c) (drop 2 u)"
    by (auto simp: split_netloc_def split: if_splits)
  then show "list_all (\<lambda>c. \<not> is_netloc_delim c) nl"
    by (auto simp: list_all_iff dest: set_takeWhileD)
  from \<open>nl = [] \<or> nl = takeWhile (\<lambda>c. \<not> is_netloc_delim c) (drop 2 u)\<close>
  show "set nl \<subseteq> set u"
    by (auto dest!: set_takeWhileD in_set_dropD)
qed

lemma split_scheme_rest: "split_scheme u = (sch, rest) \<Longrightarrow> set rest \<subseteq> set u"
  by (auto simp: split_scheme_def Let_def split: if_splits dest: in_set_dropD)

lemma url_clean_safe: "c \<in> set (url_clean u) \<Longrightarrow> \<not> is_unsafe_byte c"
  by (simp add: url_clean_def)

lemma urlparse_parts:
  assumes "urlparse ok url = Inr p"
  obtains u1 u2 where "split_scheme (url_clean url) = (scheme p, u1)"
    and "split_netloc u1 = (netloc p, u2)" and "netloc_ok ok (netloc p)"
proof -
  obtain sch u1 where a: "split_scheme (url_clean url) = (sch, u1)"
    by (cases "split_scheme (url_clean url)")
  obtain nl u2 where b: "split_netloc u1 = (nl, u2)" by (cases "split_netloc u1")
  from assms a b have "netloc_ok ok nl \<and> scheme p = sch \<and> netloc p = nl"
    by (auto simp: urlparse_def Let_def split: if_splits prod.splits)
  with a b that show ?thesis by blast
qed

lemma urlparse_result:
  assumes "split_scheme (url_clean v) = (sch, u1)" and "split_netloc u1 = (nl, u2)"
    and "netloc_ok ok nl"
  shows "\<exists>q. urlparse ok v = Inr q \<and> scheme q = sch \<and> netloc q = nl"
  using assms by (simp add: urlparse_def Let_def split: prod.splits)

lemma urlparse_rebuild:
  assumes p: "urlparse ok url = Inr p" and sn: "scheme p \<noteq> []" and nn: "netloc p \<noteq> []"
  shows "\<exists>q. urlparse ok (scheme p @ ''://'' @ netloc p @ CHR ''/'' # r) = Inr q
           \<and> scheme q = scheme p \<and> netloc q = netloc p"
proof -
  define sch where "sch = scheme p"
  define nl where "nl = netloc p"
  from urlparse_parts [OF p] obtain u1 u2
    where a: "split_scheme (url_clean url) = (sch, u1)"
      and b: "split_netloc u1 = (nl, u2)" and ok: "netloc_ok ok nl"
    unfolding sch_def nl_def by blast
  have sch_ne: "sch \<noteq> []" using sn by (simp add: sch_def)
  note sp = split_scheme_props [OF a sch_ne]
  note np = split_netloc_props [OF b]
  have nl_safe: "\<forall>c\<in>set nl. \<not> is_unsafe_byte c"
    using np(2) split_scheme_rest [OF a] url_clean_safe by blast
  have sch_safe: "\<forall>c\<in>set sch. \<not> is_unsafe_byte c"
    using sp(1) by (auto simp: list_all_iff scheme_char_safe)
  have sch_colon: "\<forall>c\<in>set sch. c \<noteq> CHR '':''"
    using sp(1) by (auto simp: list_all_iff scheme_char_not_colon)
  obtain h t where ht: "sch = h # t" using sch_ne by (cases sch) auto
  have h: "is_ascii_alpha h" using sp(2) ht by simp
  define r' where "r' = filter (\<lambda>c. \<not> is_unsafe_byte c) r"
  define v where "v = sch @ ''://'' @ nl @ CHR ''/'' # r"
  have dw: "dropWhile is_c0_or_space v = v"
    using alpha_not_c0 [OF h] by (simp add: v_def ht)
  have clean: "url_clean v = sch @ ''://'' @ nl @ CHR ''/'' # r'"
    unfolding url_clean_def dw
    using sch_safe nl_safe by (simp add: v_def r'_def char_defs filter_id_conv)
  have tw: "takeWhile (\<lambda>c. c \<noteq> CHR '':'') (sch @ ''://'' @ nl @ CHR ''/'' # r') = sch"
    using sch_colon by (simp add: takeWhile_tail)
  have ss: "split_scheme (url_clean v) = (sch, ''//'' @ nl @ CHR ''/'' # r')"
    unfolding clean split_scheme_def tw Let_def
    using sch_ne sp h by (simp add: ht)
  have nd: "\<forall>c\<in>set nl. \<not> is_netloc_delim c" using np(1) by (simp add: list_all_iff)
  have tn: "takeWhile (\<lambda>c. \<not> is_netloc_delim c) (nl @ CHR ''/'' # r') = nl"
    using nd by (simp add: takeWhile_tail is_netloc_delim_def)
  have dn: "dropWhile (\<lambda>c. \<not> is_netloc_delim c) (nl @ CHR ''/'' # r') = CHR ''/'' # r'"
    using nd by (simp add: is_netloc_delim_def)
  have sl: "split_netloc (''//'' @ nl @ CHR ''/'' # r') = (nl, CHR ''/'' # r')"
    using tn dn by (simp add: split_netloc_def)
  from urlparse_result [OF ss sl ok] show ?thesis by (simp add: v_def sch_def nl_def)
qed

lemma startswith_slash: "startswith ref ''/'' \<longleftrightarrow> (\<exists>r. ref = CHR ''/'' # r)"
  by (cases ref) (auto simp: startswith_def)

lemma rev_while_split: "xs = rev (dropWhile P (rev xs)) @ rev (takeWhile P (rev xs))"
  by (metis rev_append rev_rev_ident takeWhile_dropWhile_id)

lemma os_path_split_parts:
  "\<exists>slashes. p = fst (os_path_split p) @ slashes @ snd (os_path_split p)
     \<and> list_all (\<lambda>c. c = CHR ''/'') slashes
     \<and> CHR ''/'' \<notin> set (snd (os_path_split p))"
proof -
  define head where "head = upto_last_sep p"
  define tail where "tail = last_segment p"
  have p: "p = head @ tail"
    unfolding head_def tail_def upto_last_sep_def last_segment_def by (rule rev_while_split)
  have t: "CHR ''/'' \<notin> set tail"
    by (auto simp: tail_def last_segment_def dest: set_takeWhileD)
  define sl where "sl = rev (takeWhile (\<lambda>c. c = CHR ''/'') (rev head))"
  have h: "head = rstrip_sep head @ sl"
    unfolding rstrip_sep_def sl_def by (rule rev_while_split)
  have s: "list_all (\<lambda>c. c = CHR ''/'') sl"
    by (auto simp: sl_def list_all_iff dest: set_takeWhileD)
  have sp: "snd (os_path_split p) = tail"
    by (simp add: os_path_split_def Let_def tail_def)
  show ?thesis
  proof (cases "head \<noteq> [] \<and> \<not> list_all (\<lambda>c. c = CHR ''/'') head")
    case True
    then have "fst (os_path_split p) = rstrip_sep head"
      by (simp add: os_path_split_def Let_def head_def)
    with p h s t sp have "p = fst (os_path_split p) @ sl @ snd (os_path_split p)
       \<and> list_all (\<lambda>c. c = CHR ''/'') sl \<and> CHR ''/'' \<notin> set (snd (os_path_split p))"
      by simp
    then show ?thesis by blast
  next
    case False
    then have "fst (os_path_split p) = head"
      by (auto simp: os_path_split_def Let_def head_def)
    with p t sp have "p = fst (os_path_split p) @ [] @ snd (os_path_split p)
       \<and> list_all (\<lambda>c. c = CHR ''/'') [] \<and> CHR ''/'' \<notin> set (snd (os_path_split p))"
      by simp
    then show ?thesis by blast
  qed
qed

section \<open>Resolving the reference\<close>

text \<open>
  Claim C5. A reference that is not empty and starts neither with \<open>//\<close>, nor with
  \<open>/\<close>, nor with \<open>http\<close> is resolved against the directory of the page: the result is
  the page's scheme, \<open>://\<close>, the page's network location, a slash, the head of
  \<open>os.path.split\<close> of the page's path, a slash, and the reference. That head is the
  page's path without its last segment and without the slashes before it (unless it
  consists of slashes only). When the page URL has a scheme and a host, the result parses as
  a URL with that scheme and that host. The pieces are joined as the code joins them: a page
  path \<open>/docs/index.html\<close> gives \<open>//docs/\<close> after the host.
\<close>

theorem relative_reference_resolution:
  assumes "urlparse (ipv6_ok w) url = Inr p"
    and "find_reference w url p s = (Inr ref, s')"
    and "ref \<noteq> []"
    and "\<not> startswith ref ''//''" and "\<not> startswith ref ''/''" and "\<not> startswith ref ''http''"
  shows "get_favicon_url w url s
           = (Inr (scheme p @ ''://'' @ netloc p @ ''/'' @ fst (os_path_split (path p))
                     @ ''/'' @ ref), s')
         \<and> (\<exists>slashes. path p = fst (os_path_split (path p)) @ slashes
                                   @ snd (os_path_split (path p))
               \<and> list_all (\<lambda>c. c = CHR ''/'') slashes
               \<and> CHR ''/'' \<notin> set (snd (os_path_split (path p))))
         \<and> (scheme p \<noteq> [] \<and> netloc p \<noteq> [] \<longrightarrow>
              (\<exists>q. urlparse (ipv6_ok w)
                      (scheme p @ ''://'' @ netloc p @ ''/'' @ fst (os_path_split (path p))
                         @ ''/'' @ ref) = Inr q
                 \<and> scheme q = scheme p \<and> netloc q = netloc p))"
proof -
  have r: "resolve p ref = scheme p @ ''://'' @ netloc p @ ''/'' @ fst (os_path_split (path p))
                     @ ''/'' @ ref"
    using assms(3-6) by (simp add: resolve_def)
  have c1: "get_favicon_url w url s
           = (Inr (scheme p @ ''://'' @ netloc p @ ''/'' @ fst (os_path_split (path p))
                     @ ''/'' @ ref), s')"
    using assms(1,2) r by (simp add: get_favicon_url_def)
  have c3: "scheme p \<noteq> [] \<and> netloc p \<noteq> [] \<longrightarrow>
              (\<exists>q. urlparse (ipv6_ok w)
                      (scheme p @ ''://'' @ netloc p @ ''/'' @ fst (os_path_split (path p))
                         @ ''/'' @ ref) = Inr q
                 \<and> scheme q = scheme p \<and> netloc q = netloc p)"
  proof
    assume "scheme p \<noteq> [] \<and> netloc p \<noteq> []"
    then have "\<exists>q. urlparse (ipv6_ok w) (scheme p @ ''://'' @ netloc p
          @ CHR ''/'' # (fst (os_path_split (path p)) @ ''/'' @ ref)) = Inr q
                 \<and> scheme q = scheme p \<and> netloc q = netloc p"
      using urlparse_rebuild [OF assms(1)] by blast
    then show "\<exists>q. urlparse (ipv6_ok w)
                      (scheme p @ ''://'' @ netloc p @ ''/'' @ fst (os_path_split (path p))
                         @ ''/'' @ ref) = Inr q
                 \<and> scheme q = scheme p \<and> netloc q = netloc p" by simp
  qed
  from c1 os_path_split_parts [of "path p"] c3 show ?thesis by blast
qed

theorem relative_reference_resolution_witness:
  "get_favicon_url
     (serving \<lparr>status_code = 200, location = None, resp_url = ''https://example.com/docs/index.html'',
         icon_link = Some (Some ''img/favicon.ico''), decoded = None\<rparr> [])
     ''https://example.com/docs/index.html'' initial
   = (Inr ''https://example.com//docs/img/favicon.ico'',
      \<lparr>trace = [HttpGet ''https://example.com/docs/index.html''], files = Map.empty\<rparr>)
   \<and> os_path_split ''/docs/index.html'' = (''/docs'', ''index.html'')
   \<and> (\<exists>q. urlparse (\<lambda>h. False) ''https://example.com//docs/img/favicon.ico'' = Inr q
         \<and> scheme q = ''https'' \<and> netloc q = ''example.com'')"
proof -
  let ?r = "\<lparr>status_code = 200, location = None, resp_url = ''https://example.com/docs/index.html'',
         icon_link = Some (Some ''img/favicon.ico''), decoded = None\<rparr>"
  let ?p = "\<lparr>scheme = ''https'', netloc = ''example.com'', path = ''/docs/index.html'',
         params = [], query = [], fragment = []\<rparr>"
  let ?s = "\<lparr>trace = [HttpGet ''https://example.com/docs/index.html''], files = Map.empty\<rparr>"
  have u: "urlparse (ipv6_ok (serving ?r [])) ''https://example.com/docs/index.html'' = Inr ?p"
    by (simp add: serving_def url_defs char_defs)
  have f: "find_reference (serving ?r []) ''https://example.com/docs/index.html'' ?p initial
     = (Inr ''img/favicon.ico'', ?s)"
    by (simp add: find_reference_def declared_reference_def serving_def initial_def emit_def)
  have n: "''img/favicon.ico'' \<noteq> []" by simp
  have a: "\<not> startswith ''img/favicon.ico'' ''//''" by (simp add: startswith_def)
  have b: "\<not> startswith ''img/favicon.ico'' ''/''" by (simp add: startswith_def)
  have c: "\<not> startswith ''img/favicon.ico'' ''http''" by (simp add: startswith_def)
  have sp: "os_path_split ''/docs/index.html'' = (''/docs'', ''index.html'')"
    by (simp add: os_path_split_def upto_last_sep_def last_segment_def rstrip_sep_def)
  from relative_reference_resolution [OF u f n a b c] sp
  show ?thesis by (simp add: serving_def)
qed

text \<open>
  Claim C4, as stated, says that every non-empty reference comes back as a fully qualified
  absolute URL. A reference that starts with \<open>http\<close> is returned as it is, also when it
  is a relative path such as \<open>httpdocs/favicon.ico\<close>; and a reference that starts with
  \<open>//\<close> only gets the scheme in front, so \<open>///favicon.ico\<close> comes back without a
  host.
\<close>

theorem absolute_url_counterexample:
  "fst (get_favicon_url
     (serving \<lparr>status_code = 200, location = None, resp_url = ''https://example.com/'',
         icon_link = Some (Some ''httpdocs/favicon.ico''), decoded = None\<rparr> [])
     ''https://example.com/'' initial)
   = Inr ''httpdocs/favicon.ico''
   \<and> \<not> is_absolute_url (\<lambda>h. False) ''httpdocs/favicon.ico''
   \<and> fst (get_favicon_url
     (serving \<lparr>status_code = 200, location = None, resp_url = ''https://example.com/'',
         icon_link = Some (Some ''///favicon.ico''), decoded = None\<rparr> [])
     ''https://example.com/'' initial)
   = Inr ''https:///favicon.ico''
   \<and> \<not> is_absolute_url (\<lambda>h. False) ''https:///favicon.ico''"
  by (simp add: is_absolute_url_def run_defs url_defs char_defs)

text \<open>
  Claim C4, amended. For every page URL and every non-empty reference found: a reference
  that starts with \<open>http\<close> is returned unchanged; a reference that starts with \<open>//\<close>
  is returned with the page's scheme and a colon in front; every other reference, when the
  page URL has a scheme and a host, is returned as a fully qualified absolute URL with the
  page's scheme and host. (\<open>requests\<close> refuses a page URL without scheme or host, so no
  reference is found for one.)
\<close>

theorem resolved_reference_form:
  assumes "urlparse (ipv6_ok w) url = Inr p"
    and "find_reference w url p s = (Inr ref, s')"
    and "ref \<noteq> []"
  shows "\<exists>res. get_favicon_url w url s = (Inr res, s')
           \<and> (startswith ref ''http'' \<longrightarrow> res = ref)
           \<and> (startswith ref ''//'' \<longrightarrow> res = scheme p @ '':'' @ ref)
           \<and> (\<not> startswith ref ''http'' \<and> \<not> startswith ref ''//''
                  \<and> scheme p \<noteq> [] \<and> netloc p \<noteq> [] \<longrightarrow>
                is_absolute_url (ipv6_ok w) res
                \<and> (\<exists>q. urlparse (ipv6_ok w) res = Inr q
                      \<and> scheme q = scheme p \<and> netloc q = netloc p))"
proof -
  have g: "get_favicon_url w url s = (Inr (resolve p ref), s')"
    using assms(1,2) by (simp add: get_favicon_url_def)
  have h: "startswith ref ''http'' \<longrightarrow> resolve p ref = ref"
    using assms(3) by (cases ref) (auto simp: resolve_def startswith_def)
  have d: "startswith ref ''//'' \<longrightarrow> resolve p ref = scheme p @ '':'' @ ref"
    using assms(3) by (simp add: resolve_def)
  have a: "\<not> startswith ref ''http'' \<and> \<not> startswith ref ''//''
                  \<and> scheme p \<noteq> [] \<and> netloc p \<noteq> [] \<longrightarrow>
                is_absolute_url (ipv6_ok w) (resolve p ref)
                \<and> (\<exists>q. urlparse (ipv6_ok w) (resolve p ref) = Inr q
                      \<and> scheme q = scheme p \<and> netloc q = netloc p)"
  proof
    assume c: "\<not> startswith ref ''http'' \<and> \<not> startswith ref ''//''
                  \<and> scheme p \<noteq> [] \<and> netloc p \<noteq> []"
    have "\<exists>r. resolve p ref = scheme p @ ''://'' @ netloc p @ CHR ''/'' # r"
    proof (cases "startswith ref ''/''")
      case True
      then obtain r where "ref = CHR ''/'' # r" using startswith_slash by blast
      with c True show ?thesis by (simp add: resolve_def)
    next
      case False
      with c assms(3) show ?thesis by (simp add: resolve_def)
    qed
    then obtain r where r: "resolve p ref = scheme p @ ''://'' @ netloc p @ CHR ''/'' # r" by blast
    from c urlparse_rebuild [OF assms(1), of r] obtain q
      where q: "urlparse (ipv6_ok w) (scheme p @ ''://'' @ netloc p @ CHR ''/'' # r) = Inr q"
        "scheme q = scheme p" "netloc q = netloc p" by blast
    with c r show "is_absolute_url (ipv6_ok w) (resolve p ref)
                \<and> (\<exists>q. urlparse (ipv6_ok w) (resolve p ref) = Inr q
                      \<and> scheme q = scheme p \<and> netloc q = netloc p)"
      by (simp add: is_absolute_url_def)
  qed
  from g h d a show ?thesis by blast
qed

theorem resolved_reference_form_witness:
  "get_favicon_url
     (serving \<lparr>status_code = 200, location = None, resp_url = ''https://example.com/docs/index.html'',
         icon_link = Some (Some ''/static/favicon.ico''), decoded = None\<rparr> [])
     ''https://example.com/docs/index.html'' initial
   = (Inr ''https://example.com/static/favicon.ico'',
      \<lparr>trace = [HttpGet ''https://example.com/docs/index.html''], files = Map.empty\<rparr>)
   \<and> is_absolute_url (\<lambda>h. False) ''https://example.com/static/favicon.ico''"
proof -
  let ?r = "\<lparr>status_code = 200, location = None, resp_url = ''https://example.com/docs/index.html'',
         icon_link = Some (Some ''/static/favicon.ico''), decoded = None\<rparr>"
  let ?p = "\<lparr>scheme = ''https'', netloc = ''example.com'', path = ''/docs/index.html'',
         params = [], query = [], fragment = []\<rparr>"
  let ?s = "\<lparr>trace = [HttpGet ''https://example.com/docs/index.html''], files = Map.empty\<rparr>"
  have u: "urlparse (ipv6_ok (serving ?r [])) ''https://example.com/docs/index.html'' = Inr ?p"
    by (simp add: serving_def url_defs char_defs)
  have f: "find_reference (serving ?r []) ''https://example.com/docs/index.html'' ?p initial
     = (Inr ''/static/favicon.ico'', ?s)"
    by (simp add: find_reference_def declared_reference_def serving_def initial_def emit_def)
  have n: "''/static/favicon.ico'' \<noteq> []" by simp
  have a: "\<not> startswith ''/static/favicon.ico'' ''//''" by (simp add: startswith_def)
  have c: "\<not> startswith ''/static/favicon.ico'' ''http''" by (simp add: startswith_def)
  have g: "get_favicon_url (serving ?r []) ''https://example.com/docs/index.html'' initial
     = (Inr ''https://example.com/static/favicon.ico'', ?s)"
    using u f by (simp add: get_favicon_url_def resolve_def startswith_def)
  from resolved_reference_form [OF u f n] a c g
  show ?thesis by (simp add: serving_def)
qed

end
